theory Spec2Isabelle
  imports Main "HOL-Library.Char_ord" "HOL-Library.List_Lexorder" "HOL-Library.Sublist"
begin

section \<open>Strings as Python uses them\<close>

text \<open>
  Python strings are modelled as \<^typ>\<open>string\<close>, read as ASCII text. Comparison of strings is
  lexicographic on character codes, as Python's is. Case folding lower-cases \<open>A\<close>..\<open>Z\<close>
  and leaves every other character alone, which is what \<^verbatim>\<open>str.casefold\<close> does on
  ASCII text.
\<close>

definition newline :: char where
  "newline = CHR 0x0A"

definition lower_char :: "char \<Rightarrow> char" where
  "lower_char c =
     (case map_of (zip ''ABCDEFGHIJKLMNOPQRSTUVWXYZ'' ''abcdefghijklmnopqrstuvwxyz'') c of
        None \<Rightarrow> c
      | Some d \<Rightarrow> d)"

definition casefold :: "string \<Rightarrow> string" where
  "casefold s = map lower_char s"

definition startswith :: "string \<Rightarrow> string \<Rightarrow> bool" where
  "startswith s p = prefix p s"

definition endswith :: "string \<Rightarrow> string \<Rightarrow> bool" where
  "endswith s k = prefix (rev k) (rev s)"

text \<open>The ASCII characters for which \<^verbatim>\<open>str.isspace\<close> holds.\<close>

definition isspace :: "char \<Rightarrow> bool" where
  "isspace c = (c \<in> set [CHR 0x09, CHR 0x0A, CHR 0x0B, CHR 0x0C, CHR 0x0D,
                         CHR 0x1C, CHR 0x1D, CHR 0x1E, CHR 0x1F, CHR 0x20])"

definition strip :: "string \<Rightarrow> string" where
  "strip s = rev (dropWhile isspace (rev (dropWhile isspace s)))"

text \<open>\<^verbatim>\<open>str.split(sep)\<close> for a one-character separator, and \<^verbatim>\<open>sep.join(parts)\<close>.\<close>

fun split_sep :: "char \<Rightarrow> string \<Rightarrow> string list" where
  "split_sep c [] = [[]]"
| "split_sep c (x # xs) =
     (if x = c then [] # split_sep c xs
      else (case split_sep c xs of
              [] \<Rightarrow> [[x]]
            | w # ws \<Rightarrow> (x # w) # ws))"

fun str_join :: "string \<Rightarrow> string list \<Rightarrow> string" where
  "str_join sep [] = []"
| "str_join sep [x] = x"
| "str_join sep (x # y # ys) = x @ sep @ str_join sep (y # ys)"

section \<open>The functions of \<^verbatim>\<open>os.path\<close> (POSIX) that the collector calls\<close>

text \<open>\<^verbatim>\<open>os.path.join(a, b)\<close>: an absolute second part replaces the first.\<close>

definition path_join :: "string \<Rightarrow> string \<Rightarrow> string" where
  "path_join a b =
     (if startswith b ''/'' then b
      else if a = [] \<or> endswith a ''/'' then a @ b
      else a @ ''/'' @ b)"

text \<open>
  The loop body of \<^verbatim>\<open>posixpath.normpath\<close>: empty and \<open>.\<close> components are dropped,
  \<open>..\<close> removes the component before it unless there is none to remove.
\<close>

definition norm_step :: "nat \<Rightarrow> string list \<Rightarrow> string \<Rightarrow> string list" where
  "norm_step initial_slashes new_comps part =
     (if part = [] \<or> part = ''.'' then new_comps
      else if part \<noteq> ''..'' \<or> (initial_slashes = 0 \<and> new_comps = [])
                \<or> (new_comps \<noteq> [] \<and> last new_comps = ''..'')
           then new_comps @ [part]
      else if new_comps \<noteq> [] then butlast new_comps
      else new_comps)"

definition normpath :: "string \<Rightarrow> string" where
  "normpath p =
     (if p = [] then ''.''
      else
        let initial_slashes =
              (if startswith p ''/''
               then (if startswith p ''//'' \<and> \<not> startswith p ''///'' then 2 else 1)
               else (0::nat));
            comps = foldl (norm_step initial_slashes) [] (split_sep CHR ''/'' p);
            q = replicate initial_slashes CHR ''/'' @ str_join ''/'' comps
        in if q = [] then ''.'' else q)"

text \<open>\<^verbatim>\<open>os.path.abspath\<close>, with the current working directory as a parameter.\<close>

definition abspath :: "string \<Rightarrow> string \<Rightarrow> string" where
  "abspath cwd p = normpath (if startswith p ''/'' then p else path_join cwd p)"

section \<open>Regular expressions: the part of \<^verbatim>\<open>re\<close> the collector uses\<close>

text \<open>
  The patterns of the source use literals, \<open>.\<close>, a negated character class, \<open>*\<close>,
  alternation, capturing groups and \<open>$\<close>.
\<close>

datatype regex =
    Chr char
  | Dot
  | NotIn "char list"
  | Eol
  | Eps
  | Seq regex regex
  | Alt regex regex
  | Star regex
  | Group regex

text \<open>
  A backtracking matcher as a list of successes. A state is the input still to be read and
  the groups captured so far, the most recent first. The results are listed in the order in
  which the backtracking engine of \<^verbatim>\<open>re\<close> reaches them: a greedy star tries one more
  iteration before it tries to stop, an alternation tries its left branch first. The first
  element of the list is the match that \<^verbatim>\<open>re\<close> reports. \<open>.\<close> matches any character but
  a newline; \<open>$\<close> matches at the end of the input and before a newline that ends the input.
  With \<open>ic\<close> (the flag \<^verbatim>\<open>re.IGNORECASE\<close>) literals are compared after lower-casing.
\<close>

type_synonym mstate = "string \<times> string list"

function bmatch :: "bool \<Rightarrow> regex \<Rightarrow> mstate \<Rightarrow> mstate list" where
  "bmatch ic (Chr c) (s, caps) =
     (case s of
        [] \<Rightarrow> []
      | x # xs \<Rightarrow>
          if (if ic then lower_char x = lower_char c else x = c) then [(xs, caps)] else [])"
| "bmatch ic Dot (s, caps) =
     (case s of [] \<Rightarrow> [] | x # xs \<Rightarrow> if x \<noteq> newline then [(xs, caps)] else [])"
| "bmatch ic (NotIn cs) (s, caps) =
     (case s of [] \<Rightarrow> [] | x # xs \<Rightarrow> if x \<notin> set cs then [(xs, caps)] else [])"
| "bmatch ic Eol (s, caps) = (if s = [] \<or> s = [newline] then [(s, caps)] else [])"
| "bmatch ic Eps (s, caps) = [(s, caps)]"
| "bmatch ic (Seq a b) (s, caps) = concat (map (bmatch ic b) (bmatch ic a (s, caps)))"
| "bmatch ic (Alt a b) (s, caps) = bmatch ic a (s, caps) @ bmatch ic b (s, caps)"
| "bmatch ic (Star a) (s, caps) =
     concat (map (bmatch ic (Star a))
                 (filter (\<lambda>r. length (fst r) < length s) (bmatch ic a (s, caps))))
     @ [(s, caps)]"
| "bmatch ic (Group a) (s, caps) =
     map (\<lambda>r. (fst r, take (length s - length (fst r)) s # snd r)) (bmatch ic a (s, caps))"
  by pat_completeness auto
termination
  by (relation "measures [\<lambda>(ic, r, st). size r, \<lambda>(ic, r, st). length (fst st)]") auto

text \<open>\<^verbatim>\<open>pattern.match(s) is not None\<close>: some way of matching at the start of \<open>s\<close> exists.\<close>

definition re_matches :: "bool \<Rightarrow> regex \<Rightarrow> string \<Rightarrow> bool" where
  "re_matches ic r s = (bmatch ic r (s, []) \<noteq> [])"

text \<open>
  \<^verbatim>\<open>pattern.findall(s)\<close> for a pattern with at most one group: scan from the left; where
  the pattern matches, take the group of the reported match (the whole match if the pattern
  has no group) and go on after the match; where it does not, move one character on.
\<close>

function findall :: "regex \<Rightarrow> string \<Rightarrow> string list" where
  "findall r s =
     (case bmatch False r (s, []) of
        [] \<Rightarrow> (case s of [] \<Rightarrow> [] | x # xs \<Rightarrow> findall r xs)
      | (rest, caps) # others \<Rightarrow>
          (case caps of [] \<Rightarrow> take (length s - length rest) s | c # cs \<Rightarrow> c)
          # (if length rest < length s then findall r rest
             else (case s of [] \<Rightarrow> [] | x # xs \<Rightarrow> findall r xs)))"
  by pat_completeness auto
termination
  by (relation "measure (\<lambda>(r, s). length s)") auto

text \<open>
  \<^verbatim>\<open>re.compile\<close> on the syntax above, as a single pass with a stack of open groups. A
  frame holds the branches of the alternation finished so far and the items of the branch
  being read. \<open>None\<close> stands for \<^verbatim>\<open>re.error\<close> (unbalanced parentheses, nothing to
  repeat, a dangling backslash) and for syntax this model leaves out (\<open>+ ? { } [ ] ^\<close> and
  backslash followed by a letter or a digit).
\<close>

fun mk_seq :: "regex list \<Rightarrow> regex" where
  "mk_seq [] = Eps"
| "mk_seq [x] = x"
| "mk_seq (x # y # ys) = Seq x (mk_seq (y # ys))"

fun mk_alt :: "regex list \<Rightarrow> regex" where
  "mk_alt [] = Eps"
| "mk_alt [x] = x"
| "mk_alt (x # y # ys) = Alt x (mk_alt (y # ys))"

type_synonym frame = "regex list \<times> regex list"

definition close_frame :: "frame \<Rightarrow> regex" where
  "close_frame f = mk_alt (fst f @ [mk_seq (snd f)])"

fun repeatable :: "regex \<Rightarrow> bool" where
  "repeatable (Star a) = False"
| "repeatable Eol = False"
| "repeatable r = True"

definition is_alnum :: "char \<Rightarrow> bool" where
  "is_alnum c = (c \<in> set ''ABCDEFGHIJKLMNOPQRSTUVWXYZabcdefghijklmnopqrstuvwxyz0123456789'')"

fun parse_re :: "frame \<Rightarrow> frame list \<Rightarrow> string \<Rightarrow> regex option" where
  "parse_re f stk [] = (if stk = [] then Some (close_frame f) else None)"
| "parse_re f stk (c # rest) =
     (if c = CHR ''('' then parse_re ([], []) (f # stk) rest
      else if c = CHR '')'' then
        (case stk of
           [] \<Rightarrow> None
         | p # stk' \<Rightarrow> parse_re (fst p, snd p @ [Group (close_frame f)]) stk' rest)
      else if c = CHR ''|'' then parse_re (fst f @ [mk_seq (snd f)], []) stk rest
      else if c = CHR ''*'' then
        (if snd f = [] \<or> \<not> repeatable (last (snd f)) then None
         else parse_re (fst f, butlast (snd f) @ [Star (last (snd f))]) stk rest)
      else if c = CHR ''.'' then parse_re (fst f, snd f @ [Dot]) stk rest
      else if c = CHR ''$'' then parse_re (fst f, snd f @ [Eol]) stk rest
      else if c = CHR 0x5C then
        (case rest of
           [] \<Rightarrow> None
         | e # rest' \<Rightarrow>
             if is_alnum e then None else parse_re (fst f, snd f @ [Chr e]) stk rest')
      else if c \<in> set ''+?{}[]^'' then None
      else parse_re (fst f, snd f @ [Chr c]) stk rest)"

definition re_compile :: "string \<Rightarrow> regex option" where
  "re_compile p = parse_re ([], []) [] p"

section \<open>The environment: file system, network, log\<close>

text \<open>The exceptions that can reach the collector.\<close>

datatype exn =
    FileNotFoundError
  | NotADirectoryError
  | PermissionError
  | IsADirectoryError
  | UnicodeDecodeError
  | LookupError
  | TypeError
  | ConnectionError
  | Timeout
  | ReError

text \<open>\<^verbatim>\<open>os.DirEntry\<close>: \<open>is_file\<close> and \<open>is_dir\<close> follow symbolic links.\<close>

record direntry =
  name :: string
  path :: string
  is_file :: bool
  is_dir :: bool

text \<open>
  What the collector reads of a \<^verbatim>\<open>requests\<close> response: the status code and the outcome
  of \<^verbatim>\<open>r.content.decode(r.encoding)\<close>, which raises when the encoding is missing or
  unknown or the bytes are not valid in it.
\<close>

record response =
  status_code :: int
  body :: "exn + string"

text \<open>
  The world the collector runs in. \<open>listdir d\<close> is what the directory \<open>d\<close> holds (name,
  is-file, is-directory, in the order the operating system reports them) or the exception of
  \<^verbatim>\<open>os.scandir(d)\<close>; \<open>open_lines p\<close> is the list of lines that iterating over
  \<^verbatim>\<open>open(p)\<close> yields, or the exception of opening or reading; \<open>http_get u\<close> is the
  outcome of \<^verbatim>\<open>requests.get(u)\<close>.
\<close>

record world =
  listdir :: "string \<Rightarrow> exn + (string \<times> bool \<times> bool) list"
  open_lines :: "string \<Rightarrow> exn + string list"
  http_get :: "string \<Rightarrow> exn + response"
  getcwd :: string

definition scandir :: "world \<Rightarrow> string \<Rightarrow> exn + direntry list" where
  "scandir w d =
     (case listdir w d of
        Inl e \<Rightarrow> Inl e
      | Inr es \<Rightarrow>
          Inr (map (\<lambda>(n, f, dd). \<lparr>name = n, path = path_join d n, is_file = f, is_dir = dd\<rparr>)
                   es))"

text \<open>The calls of the logger, by message.\<close>

datatype log_record =
    GetURLFailed exn
  | BadStatus int string
  | ZeroEntries string
  | ParseFailed exn
  | DecodePodcast string
  | DecodeLivestream string
  | DecodeM3U string
  | ExclusionRegex string

fun is_error_record :: "log_record \<Rightarrow> bool" where
  "is_error_record (GetURLFailed e) = True"
| "is_error_record (BadStatus c u) = True"
| "is_error_record (ZeroEntries u) = True"
| "is_error_record (ParseFailed e) = True"
| "is_error_record r = False"

text \<open>
  A computation yields the log records it wrote and either the exception it raised or its
  value. Records written before an exception stay written.
\<close>

type_synonym 'a result = "log_record list \<times> (exn + 'a)"

definition logged :: "log_record list \<Rightarrow> 'a result \<Rightarrow> 'a result" where
  "logged lg r = (lg @ fst r, snd r)"

definition bind_res :: "'a result \<Rightarrow> ('a \<Rightarrow> 'b result) \<Rightarrow> 'b result" where
  "bind_res m f =
     (case snd m of
        Inl e \<Rightarrow> (fst m, Inl e)
      | Inr x \<Rightarrow> logged (fst m) (f x))"

section \<open>The feed fetcher\<close>

text \<open>
  \<^verbatim>\<open>enclosure_re = re.compile(r'.*enclosure.*url="([^"]*)"')\<close>
\<close>

definition enclosure_re :: regex where
  "enclosure_re =
     mk_seq ([Star Dot] @ map Chr ''enclosure'' @ [Star Dot] @ map Chr ''url=''
             @ [Chr (CHR 0x22), Group (Star (NotIn [CHR 0x22])), Chr (CHR 0x22)])"

definition decode_podcast_core :: "world \<Rightarrow> string \<Rightarrow> string list \<Rightarrow> string list result" where
  "decode_podcast_core w url playlist =
     (case http_get w url of
        Inl e \<Rightarrow> ([GetURLFailed e], Inr playlist)
      | Inr r \<Rightarrow>
          logged (if status_code r \<noteq> 200 then [BadStatus (status_code r) url] else [])
            (case body r of
               Inl e \<Rightarrow> ([], Inl e)
             | Inr text \<Rightarrow>
                 (let er = findall enclosure_re text
                  in (if length er = 0 then [ZeroEntries url] else [],
                      Inr (foldl (\<lambda>pl exp. pl @ [exp]) playlist er)))))"

section \<open>The handlers\<close>

text \<open>
  A handler gets the directory entry, the folder path and the folder's playlist so far; it
  yields its return value as a truth value (\<^verbatim>\<open>None\<close> counts as false) and the playlist
  as it has left it.
\<close>

fun podcast_lines :: "world \<Rightarrow> string list \<Rightarrow> string list \<Rightarrow> string list result" where
  "podcast_lines w [] playlist = ([], Inr playlist)"
| "podcast_lines w (l # ls) playlist =
     (let line = strip l
      in if length line > 0 \<and> \<not> startswith line ''#''
         then bind_res (decode_podcast_core w line playlist) (podcast_lines w ls)
         else podcast_lines w ls playlist)"

text \<open>\<open>filename\<close> is what \<^verbatim>\<open>open\<close> is given: a string, or the path of a directory entry.\<close>

definition decode_podcast ::
  "world \<Rightarrow> string \<Rightarrow> string \<Rightarrow> string list \<Rightarrow> (bool \<times> string list) result" where
  "decode_podcast w filename dir playlist =
     logged [DecodePodcast filename]
       (case open_lines w filename of
          Inl e \<Rightarrow> ([], Inl e)
        | Inr ls \<Rightarrow> bind_res (podcast_lines w ls playlist) (\<lambda>pl. ([], Inr (False, pl))))"

fun livestream_lines :: "string list \<Rightarrow> string list \<Rightarrow> string list" where
  "livestream_lines [] playlist = playlist"
| "livestream_lines (l # ls) playlist =
     (let line = strip l
      in if length line > 0 \<and> \<not> startswith line ''#''
         then livestream_lines ls (playlist @ [line])
         else livestream_lines ls playlist)"

definition decode_livestream ::
  "world \<Rightarrow> direntry \<Rightarrow> string \<Rightarrow> string list \<Rightarrow> (bool \<times> string list) result" where
  "decode_livestream w filename dir playlist =
     logged [DecodeLivestream (name filename)]
       (case open_lines w (path filename) of
          Inl e \<Rightarrow> ([], Inl e)
        | Inr ls \<Rightarrow> ([], Inr (False, livestream_lines ls playlist)))"

definition decode_musicfile ::
  "world \<Rightarrow> direntry \<Rightarrow> string \<Rightarrow> string list \<Rightarrow> (bool \<times> string list) result" where
  "decode_musicfile w filename dir playlist =
     ([], Inr (False, playlist @ [normpath (path_join dir (name filename))]))"

fun m3u_lines :: "world \<Rightarrow> string \<Rightarrow> string list \<Rightarrow> string list \<Rightarrow> string list result" where
  "m3u_lines w dir [] playlist = ([], Inr playlist)"
| "m3u_lines w dir (l # ls) playlist =
     (let line = strip l
      in if length line > 0 \<and> \<not> startswith line ''#''
         then (if endswith line ''.xml'' \<or> endswith line ''.podcast''
               then bind_res (decode_podcast w line dir playlist)
                             (\<lambda>r. m3u_lines w dir ls (snd r))
               else if startswith line ''http://'' \<or> startswith line ''https://''
                       \<or> startswith line ''ftp://''
               then m3u_lines w dir ls (playlist @ [line])
               else m3u_lines w dir ls (playlist @ [normpath (path_join dir line)]))
         else m3u_lines w dir ls playlist)"

definition decode_m3u ::
  "world \<Rightarrow> direntry \<Rightarrow> string \<Rightarrow> string list \<Rightarrow> (bool \<times> string list) result" where
  "decode_m3u w filename dir playlist =
     logged [DecodeM3U (path filename)]
       (case open_lines w (path filename) of
          Inl e \<Rightarrow> ([], Inl e)
        | Inr ls \<Rightarrow> bind_res (m3u_lines w dir ls []) (\<lambda>pl. ([], Inr (True, pl))))"

section \<open>The class \<^verbatim>\<open>PlaylistCollector\<close>\<close>

subsection \<open>Class attributes: the exclusion pattern\<close>

record class_attrs =
  exclude_endings :: "string list"
  exclude_str :: string
  exclude_re :: regex

text \<open>\<^verbatim>\<open>'.*\\.((' + ')|('.join(endings) + '))$'\<close>\<close>

definition mk_exclude_str :: "string list \<Rightarrow> string" where
  "mk_exclude_str endings =
     ''.*'' @ [CHR 0x5C] @ ''.(('' @ str_join '')|('' endings @ ''))$''"


definition default_endings :: "string list" where
  "default_endings =
     [''zip'', ''py'', ''db'', ''png'', ''jpg'', ''conf'', ''yaml'', ''json'', ''.*~'', ''.*#'']"

text \<open>The attributes as the class body leaves them.\<close>

definition PlaylistCollector :: class_attrs where
  "PlaylistCollector =
     \<lparr>exclude_endings = default_endings,
      exclude_str = mk_exclude_str default_endings,
      exclude_re = the (re_compile (mk_exclude_str default_endings))\<rparr>"

definition is_valid :: "class_attrs \<Rightarrow> direntry \<Rightarrow> bool" where
  "is_valid cls direntry =
     (is_file direntry \<and> \<not> startswith (name direntry) ''.''
      \<and> \<not> re_matches True (exclude_re cls) (name direntry))"

subsection \<open>Instances\<close>

record collector =
  playlist :: "string list"
  music_library_base_path :: string
  folder :: string
  recursive :: bool

definition init :: "class_attrs \<Rightarrow> world \<Rightarrow> string \<Rightarrow> log_record list \<times> collector" where
  "init cls w base =
     ([ExclusionRegex (exclude_str cls)],
      \<lparr>playlist = [], music_library_base_path = abspath (getcwd w) base,
       folder = [], recursive = False\<rparr>)"

text \<open>
  The special handlers, in the order of the dictionary. A directory entry given to
  \<^verbatim>\<open>open\<close> is opened by its path.
\<close>

type_synonym handler =
  "world \<Rightarrow> direntry \<Rightarrow> string \<Rightarrow> string list \<Rightarrow> (bool \<times> string list) result"

definition special_handlers :: "(string \<times> handler) list" where
  "special_handlers =
     [(''livestream.txt'', decode_livestream),
      (''podcast.txt'', \<lambda>w f. decode_podcast w (path f)),
      (''.txt'', \<lambda>w f p l. ([], Inr (False, l))),
      (''.m3u'', decode_m3u)]"

definition default_handler :: handler where
  "default_handler = decode_musicfile"

text \<open>
  The inner loop over the handler keys with its \<^verbatim>\<open>else\<close> branch: the first key that
  ends the case-folded name selects the handler, whose return value becomes
  \<^verbatim>\<open>stop_processing\<close>; with no such key the default handler runs and its return value
  is dropped.
\<close>

fun run_handlers ::
  "(string \<times> handler) list \<Rightarrow> world \<Rightarrow> direntry \<Rightarrow> string \<Rightarrow> string list
   \<Rightarrow> (bool \<times> string list) result" where
  "run_handlers [] w filename dir pl =
     bind_res (default_handler w filename dir pl) (\<lambda>r. ([], Inr (False, snd r)))"
| "run_handlers (kh # hs) w filename dir pl =
     (if endswith (casefold (name filename)) (fst kh) then snd kh w filename dir pl
      else run_handlers hs w filename dir pl)"

text \<open>The outer loop over the sorted directory.\<close>

fun process_directory ::
  "world \<Rightarrow> string \<Rightarrow> bool \<Rightarrow> direntry list \<Rightarrow> string list \<Rightarrow> string list result" where
  "process_directory w dir stop_processing [] folder_playlist = ([], Inr folder_playlist)"
| "process_directory w dir stop_processing (filename # rest) folder_playlist =
     (if stop_processing then ([], Inr folder_playlist)
      else bind_res (run_handlers special_handlers w filename dir folder_playlist)
             (\<lambda>r. process_directory w dir (fst r) rest (snd r)))"

definition parse_nonrecusive :: "class_attrs \<Rightarrow> world \<Rightarrow> string \<Rightarrow> string list result" where
  "parse_nonrecusive cls w dir =
     (case scandir w dir of
        Inl e \<Rightarrow> ([], Inl e)
      | Inr es \<Rightarrow>
          process_directory w dir False
            (sort_key (\<lambda>x. casefold (name x)) (filter (is_valid cls) es)) [])"

text \<open>
  \<^verbatim>\<open>os.walk(root, followlinks=True)\<close>, the directory paths it yields, top-down. With no
  \<^verbatim>\<open>onerror\<close> a directory that cannot be listed is passed over in silence. The fuel bounds
  the depth; \<open>None\<close> means the fuel ran out.
\<close>

fun walk :: "nat \<Rightarrow> world \<Rightarrow> string \<Rightarrow> string list option" where
  "walk 0 w root = None"
| "walk (Suc n) w root =
     (case scandir w root of
        Inl e \<Rightarrow> Some []
      | Inr es \<Rightarrow>
          map_option (\<lambda>below. root # concat below)
            (those (map (\<lambda>e. walk n w (path_join root (name e))) (filter is_dir es))))"

fun concat_folders ::
  "class_attrs \<Rightarrow> world \<Rightarrow> string list \<Rightarrow> string list \<Rightarrow> string list result" where
  "concat_folders cls w [] recursive_playlist = ([], Inr recursive_playlist)"
| "concat_folders cls w (d # ds) recursive_playlist =
     bind_res (parse_nonrecusive cls w d)
       (\<lambda>pl. concat_folders cls w ds (recursive_playlist @ pl))"

definition parse_recursive ::
  "nat \<Rightarrow> class_attrs \<Rightarrow> world \<Rightarrow> string \<Rightarrow> string list result option" where
  "parse_recursive fuel cls w dir =
     (case walk fuel w dir of
        None \<Rightarrow> None
      | Some dir_list \<Rightarrow> Some (concat_folders cls w (sort_key casefold dir_list) []))"

text \<open>
  What a call of \<^verbatim>\<open>parse\<close> leaves: the log records written, the exception that reached
  the caller if any, and the instance.
\<close>

record outcome =
  log :: "log_record list"
  raised :: "exn option"
  self :: collector

definition parse ::
  "nat \<Rightarrow> class_attrs \<Rightarrow> world \<Rightarrow> collector \<Rightarrow> string \<Rightarrow> bool \<Rightarrow> outcome option" where
  "parse fuel cls w slf rel is_recursive =
     (let slf1 = slf\<lparr>playlist := [], recursive := is_recursive,
                     folder := abspath (getcwd w)
                                 (path_join (music_library_base_path slf) rel)\<rparr>
      in case (if is_recursive then parse_recursive fuel cls w (folder slf1)
               else Some (parse_nonrecusive cls w (folder slf1))) of
           None \<Rightarrow> None
         | Some r \<Rightarrow>
             Some (case snd r of
                     Inr pl \<Rightarrow> \<lparr>log = fst r, raised = None, self = slf1\<lparr>playlist := pl\<rparr>\<rparr>
                   | Inl e \<Rightarrow>
                       if e = NotADirectoryError \<or> e = FileNotFoundError
                       then \<lparr>log = fst r @ [ParseFailed e], raised = None, self = slf1\<rparr>
                       else \<lparr>log = fst r, raised = Some e, self = slf1\<rparr>))"

section \<open>Notions used in the statements\<close>


text \<open>
  An entry that no special handler takes (none of the keys ends its case-folded name), an
  entry that the folder playlist handler takes, an entry whose handler opens it, and the
  exceptions that \<^verbatim>\<open>parse\<close> catches.
\<close>

definition plain_media :: "direntry \<Rightarrow> bool" where
  "plain_media f = (list_all (\<lambda>k. \<not> endswith (casefold (name f)) k) (map fst special_handlers))"




text \<open>A directory listing with everything but the regular files removed.\<close>

definition regular_only :: "(string \<times> bool \<times> bool) list \<Rightarrow> (string \<times> bool \<times> bool) list" where
  "regular_only es = filter (\<lambda>e. fst (snd e)) es"

text \<open>
  The playlist that the documentation promises for a folder of plain media files: the
  paths of the files relative to the base path of the library, in case-insensitive order.
\<close>

definition claimed_plain_playlist :: "string \<Rightarrow> string list \<Rightarrow> string list" where
  "claimed_plain_playlist rel names =
     sort_key casefold (map (\<lambda>n. normpath (path_join rel n)) names)"








section \<open>Concrete worlds for the examples\<close>

text \<open>
  A world from tables: directories and files that are not in the tables do not exist, and
  a feed that is not in the table cannot be reached.
\<close>

definition mk_world ::
  "(string \<times> (exn + (string \<times> bool \<times> bool) list)) list \<Rightarrow> (string \<times> (exn + string list)) list
   \<Rightarrow> (string \<times> (exn + response)) list \<Rightarrow> world" where
  "mk_world dirs files feeds =
     \<lparr>listdir = (\<lambda>d. case map_of dirs d of None \<Rightarrow> Inl FileNotFoundError | Some r \<Rightarrow> r),
      open_lines = (\<lambda>p. case map_of files p of None \<Rightarrow> Inl FileNotFoundError | Some r \<Rightarrow> r),
      http_get = (\<lambda>u. case map_of feeds u of None \<Rightarrow> Inl ConnectionError | Some r \<Rightarrow> r),
      getcwd = ''/''\<rparr>"

definition file_entry :: "string \<Rightarrow> string \<Rightarrow> direntry" where
  "file_entry d n = \<lparr>name = n, path = path_join d n, is_file = True, is_dir = False\<rparr>"

text \<open>A folder of two media files, with and without a subdirectory and a pipe beside them.\<close>

definition album_world :: world where
  "album_world =
     mk_world [(''/music/Album'',
                Inr [(''b.mp3'', True, False), (''sub'', False, True), (''A.mp3'', True, False),
                     (''fifo'', False, False)])] [] []"

definition album_world_files :: world where
  "album_world_files =
     mk_world [(''/music/Album'', Inr [(''b.mp3'', True, False), (''A.mp3'', True, False)])] [] []"


text \<open>Two enclosures on one line, and on two lines.\<close>

definition one_line_feed :: string where
  "one_line_feed =
     ''<enclosure url='' @ [CHR 0x22] @ ''a.mp3'' @ [CHR 0x22] @ ''/>''
     @ ''<enclosure url='' @ [CHR 0x22] @ ''b.mp3'' @ [CHR 0x22] @ ''/>''"

definition two_line_feed :: string where
  "two_line_feed =
     ''<enclosure url='' @ [CHR 0x22] @ ''a.mp3'' @ [CHR 0x22] @ ''/>'' @ [newline]
     @ ''<enclosure url='' @ [CHR 0x22] @ ''b.mp3'' @ [CHR 0x22] @ ''/>''"

definition enclosure_world :: world where
  "enclosure_world =
     mk_world [] []
       [(''http://feed/one-line'', Inr \<lparr>status_code = 200, body = Inr one_line_feed\<rparr>),
        (''http://feed/two-lines'', Inr \<lparr>status_code = 200, body = Inr two_line_feed\<rparr>)]"

text \<open>A library without the folder \<open>Album\<close>, in which \<open>song.mp3\<close> is a regular file.\<close>

definition missing_world :: world where
  "missing_world =
     mk_world [(''/music/song.mp3'', Inl NotADirectoryError)] [] []"







section \<open>Results and logs\<close>

lemma bind_res_Inl [simp]: "bind_res (lg, Inl e) f = (lg, Inl e)"
  by (simp add: bind_res_def)

lemma bind_res_Inr [simp]: "bind_res (lg, Inr x) f = logged lg (f x)"
  by (simp add: bind_res_def)

lemma logged_pair [simp]: "logged a (lg, v) = (a @ lg, v)"
  by (simp add: logged_def)

lemma logged_Nil [simp]: "logged [] r = r"
  by (simp add: logged_def)

lemma logged_logged [simp]: "logged a (logged b r) = logged (a @ b) r"
  by (simp add: logged_def)

lemma fst_logged [simp]: "fst (logged a r) = a @ fst r"
  by (simp add: logged_def)

lemma snd_logged [simp]: "snd (logged a r) = snd r"
  by (simp add: logged_def)



section \<open>Dispatch on the file name\<close>

lemma run_handlers_find:
  "run_handlers hs w f dir pl =
     (case find (\<lambda>kh. endswith (casefold (name f)) (fst kh)) hs of
        None \<Rightarrow> bind_res (default_handler w f dir pl) (\<lambda>r. ([], Inr (False, snd r)))
      | Some kh \<Rightarrow> snd kh w f dir pl)"
  by (induction hs) auto

text \<open>
  C5. An entry that passed the filters is tested against the keys \<open>livestream.txt\<close>,
  \<open>podcast.txt\<close>, \<open>.txt\<close>, \<open>.m3u\<close> in this order on its case-folded name; the handler
  of the first key that matches runs and no other; an entry that matches \<open>.txt\<close> and neither
  of the two more specific keys adds nothing to the playlist and the loop goes on with the
  entries after it.
\<close>

theorem special_handlers_first_match_wins:
  "map fst special_handlers = [''livestream.txt'', ''podcast.txt'', ''.txt'', ''.m3u'']
   \<and> run_handlers special_handlers w f dir pl =
       (case find (\<lambda>kh. endswith (casefold (name f)) (fst kh)) special_handlers of
          None \<Rightarrow> bind_res (default_handler w f dir pl) (\<lambda>r. ([], Inr (False, snd r)))
        | Some kh \<Rightarrow> snd kh w f dir pl)
   \<and> (endswith (casefold (name f)) ''livestream.txt'' \<longrightarrow>
        run_handlers special_handlers w f dir pl = decode_livestream w f dir pl)
   \<and> (\<not> endswith (casefold (name f)) ''livestream.txt''
        \<and> endswith (casefold (name f)) ''podcast.txt'' \<longrightarrow>
        run_handlers special_handlers w f dir pl = decode_podcast w (path f) dir pl)
   \<and> (\<not> endswith (casefold (name f)) ''livestream.txt''
        \<and> \<not> endswith (casefold (name f)) ''podcast.txt''
        \<and> endswith (casefold (name f)) ''.txt'' \<longrightarrow>
        run_handlers special_handlers w f dir pl = ([], Inr (False, pl))
        \<and> process_directory w dir False (f # rest) pl = process_directory w dir False rest pl)"
  by (simp add: run_handlers_find) (simp add: special_handlers_def)

theorem special_handlers_first_match_wins_witness:
  "\<not> endswith (casefold (name (file_entry ''/music/Album'' ''Notes.TXT''))) ''livestream.txt''
   \<and> \<not> endswith (casefold (name (file_entry ''/music/Album'' ''Notes.TXT''))) ''podcast.txt''
   \<and> endswith (casefold (name (file_entry ''/music/Album'' ''Notes.TXT''))) ''.txt''
   \<and> endswith (casefold (name (file_entry ''/music/Album'' ''My-Livestream.txt''))) ''livestream.txt''
   \<and> run_handlers special_handlers (mk_world [] [] []) (file_entry ''/music/Album'' ''Notes.TXT'')
         ''/music/Album'' [''x''] = ([], Inr (False, [''x'']))
   \<and> process_directory (mk_world [] [] []) ''/music/Album'' False
         [file_entry ''/music/Album'' ''Notes.TXT'', file_entry ''/music/Album'' ''z.mp3''] [''x'']
       = ([], Inr [''x'', ''/music/Album/z.mp3''])"
  using special_handlers_first_match_wins
    [of "mk_world [] [] []" "file_entry ''/music/Album'' ''Notes.TXT''" "''/music/Album''" "[''x'']"
        "[file_entry ''/music/Album'' ''z.mp3'']"]
  by (simp add: file_entry_def endswith_def casefold_def lower_char_def special_handlers_def
      default_handler_def decode_musicfile_def normpath_def path_join_def startswith_def norm_step_def)

section \<open>The handlers read files and feeds only\<close>

lemma decode_podcast_core_io:
  "http_get w' = http_get w \<Longrightarrow> decode_podcast_core w' u pl = decode_podcast_core w u pl"
  by (simp add: decode_podcast_core_def)

lemma podcast_lines_io:
  assumes "http_get w' = http_get w"
  shows "podcast_lines w' ls pl = podcast_lines w ls pl"
proof (induction ls arbitrary: pl)
  case Nil
  show ?case by simp
next
  case (Cons l ls)
  have "podcast_lines w' ls = podcast_lines w ls"
    using Cons by blast
  then show ?case
    by (simp add: Let_def decode_podcast_core_io [OF assms])
qed

lemma decode_podcast_io:
  assumes "open_lines w' = open_lines w" "http_get w' = http_get w"
  shows "decode_podcast w' fn dir pl = decode_podcast w fn dir pl"
  by (simp add: decode_podcast_def podcast_lines_io [OF assms(2)] assms(1) split: sum.split)

lemma m3u_lines_io:
  assumes "open_lines w' = open_lines w" "http_get w' = http_get w"
  shows "m3u_lines w' dir ls pl = m3u_lines w dir ls pl"
proof (induction ls arbitrary: pl)
  case Nil
  show ?case by simp
next
  case (Cons l ls)
  have "\<And>q. m3u_lines w' dir ls q = m3u_lines w dir ls q"
    using Cons by blast
  then show ?case
    by (simp add: Let_def decode_podcast_io [OF assms])
qed

lemma run_handlers_io:
  assumes "open_lines w' = open_lines w" "http_get w' = http_get w"
  shows "run_handlers special_handlers w' f dir pl = run_handlers special_handlers w f dir pl"
  by (simp add: special_handlers_def default_handler_def decode_musicfile_def
      decode_livestream_def decode_podcast_io [OF assms] decode_m3u_def m3u_lines_io [OF assms]
      assms(1) split: sum.split)

lemma process_directory_io:
  assumes "open_lines w' = open_lines w" "http_get w' = http_get w"
  shows "process_directory w' dir stop fs pl = process_directory w dir stop fs pl"
proof (induction fs arbitrary: stop pl)
  case Nil
  show ?case by simp
next
  case (Cons f fs)
  have "\<And>s q. process_directory w' dir s fs q = process_directory w dir s fs q"
    using Cons by blast
  then show ?case
    by (simp add: run_handlers_io [OF assms])
qed

section \<open>The validity filter\<close>

lemma is_valid_is_file: "is_valid cls e \<Longrightarrow> is_file e"
  by (simp add: is_valid_def)

lemma filter_valid_files:
  "filter (\<lambda>x. is_file x \<and> is_valid cls x) es = filter (is_valid cls) es"
  by (induction es) (auto simp: is_valid_def)

lemma scandir_regular_only:
  assumes "listdir w dir = Inr es" "listdir w' dir = Inr (regular_only es)"
  shows "\<exists>ds. scandir w dir = Inr ds \<and> scandir w' dir = Inr (filter is_file ds)"
  using assms by (simp add: scandir_def regular_only_def filter_map comp_def case_prod_beta)

text \<open>
  C10. An entry passes the validity filter only if it is a regular file, its name does not
  start with a dot and the exclusion pattern does not match its name. Entries that are not
  regular files add nothing to the list of their folder: a world whose listing of the folder
  has them removed gives the same result.
\<close>

theorem only_regular_files_contribute:
  "(is_valid cls e \<longleftrightarrow>
      is_file e \<and> \<not> startswith (name e) ''.'' \<and> \<not> re_matches True (exclude_re cls) (name e))
   \<and> (listdir w dir = Inr es \<and> listdir w' dir = Inr (regular_only es)
        \<and> open_lines w' = open_lines w \<and> http_get w' = http_get w
        \<longrightarrow> parse_nonrecusive cls w' dir = parse_nonrecusive cls w dir)"
proof (intro conjI impI)
  show "is_valid cls e \<longleftrightarrow>
      is_file e \<and> \<not> startswith (name e) ''.'' \<and> \<not> re_matches True (exclude_re cls) (name e)"
    by (simp add: is_valid_def)
next
  assume a: "listdir w dir = Inr es \<and> listdir w' dir = Inr (regular_only es)
        \<and> open_lines w' = open_lines w \<and> http_get w' = http_get w"
  then obtain ds where ds: "scandir w dir = Inr ds" "scandir w' dir = Inr (filter is_file ds)"
    using scandir_regular_only by blast
  show "parse_nonrecusive cls w' dir = parse_nonrecusive cls w dir"
    using a by (simp add: parse_nonrecusive_def ds filter_valid_files process_directory_io [of w' w])
qed


theorem only_regular_files_contribute_witness:
  "listdir album_world ''/music/Album''
     = Inr [(''b.mp3'', True, False), (''sub'', False, True), (''A.mp3'', True, False),
            (''fifo'', False, False)]
   \<and> listdir album_world_files ''/music/Album''
     = Inr (regular_only [(''b.mp3'', True, False), (''sub'', False, True),
                          (''A.mp3'', True, False), (''fifo'', False, False)])
   \<and> open_lines album_world_files = open_lines album_world
   \<and> http_get album_world_files = http_get album_world
   \<and> parse_nonrecusive PlaylistCollector album_world_files ''/music/Album''
     = parse_nonrecusive PlaylistCollector album_world ''/music/Album''
   \<and> parse_nonrecusive PlaylistCollector album_world ''/music/Album''
     = ([], Inr [''/music/Album/A.mp3'', ''/music/Album/b.mp3''])"
proof -
  have h: "listdir album_world ''/music/Album''
     = Inr [(''b.mp3'', True, False), (''sub'', False, True), (''A.mp3'', True, False),
            (''fifo'', False, False)]
   \<and> listdir album_world_files ''/music/Album''
     = Inr (regular_only [(''b.mp3'', True, False), (''sub'', False, True),
                          (''A.mp3'', True, False), (''fifo'', False, False)])
   \<and> open_lines album_world_files = open_lines album_world
   \<and> http_get album_world_files = http_get album_world"
    by (simp add: album_world_def album_world_files_def mk_world_def regular_only_def)
  have c: "parse_nonrecusive PlaylistCollector album_world_files ''/music/Album''
     = parse_nonrecusive PlaylistCollector album_world ''/music/Album''"
    using only_regular_files_contribute h by blast
  have v: "parse_nonrecusive PlaylistCollector album_world ''/music/Album''
     = ([], Inr [''/music/Album/A.mp3'', ''/music/Album/b.mp3''])"
    by code_simp
  show ?thesis using h c v by simp
qed

section \<open>The feed fetcher\<close>









section \<open>A folder of plain media files\<close>

lemma run_handlers_plain:
  "plain_media f \<Longrightarrow>
   run_handlers special_handlers w f dir pl
     = ([], Inr (False, pl @ [normpath (path_join dir (name f))]))"
  by (simp add: plain_media_def special_handlers_def default_handler_def decode_musicfile_def)

lemma process_directory_plain:
  "list_all plain_media fs \<Longrightarrow>
   process_directory w dir False fs pl
     = ([], Inr (pl @ map (\<lambda>f. normpath (path_join dir (name f))) fs))"
  by (induction fs arbitrary: pl) (simp_all add: run_handlers_plain)

lemma insort_key_map:
  "map g (insort_key (\<lambda>x. k (g x)) a xs) = insort_key k (g a) (map g xs)"
  by (induction xs) auto

lemma sort_key_map:
  "map g (sort_key (\<lambda>x. k (g x)) xs) = sort_key k (map g xs)"
  by (induction xs) (auto simp: insort_key_map)

lemma plain_folder_sorted:
  assumes "scandir w dir = Inr es"
    and "list_all (\<lambda>e. is_valid cls e \<and> plain_media e) es"
  shows "parse_nonrecusive cls w dir
     = ([], Inr (map (\<lambda>n. normpath (path_join dir n)) (sort_key casefold (map name es))))"
proof -
  have v: "filter (is_valid cls) es = es"
    using assms(2) by (simp add: list_all_iff)
  have "list_all plain_media (sort_key (\<lambda>x. casefold (name x)) es)"
    using assms(2) by (simp add: list_all_iff)
  then have "process_directory w dir False (sort_key (\<lambda>x. casefold (name x)) es) []
     = ([], Inr (map (\<lambda>f. normpath (path_join dir (name f)))
                  (sort_key (\<lambda>x. casefold (name x)) es)))"
    by (simp add: process_directory_plain)
  moreover have "map (\<lambda>f. normpath (path_join dir (name f))) (sort_key (\<lambda>x. casefold (name x)) es)
     = map (\<lambda>n. normpath (path_join dir n)) (sort_key casefold (map name es))"
    by (simp flip: sort_key_map [of name casefold es] add: comp_def)
  ultimately show ?thesis
    by (simp add: parse_nonrecusive_def assms(1) v)
qed

text \<open>
  C1. For a folder that holds plain media files only, the playlist is in case-insensitive
  order of the file names, but each entry is the folder path that \<^verbatim>\<open>parse\<close> made absolute
  joined with the file name, not a path relative to the base path of the library: with the
  base \<open>/music\<close> and the folder \<open>Album\<close> the entries are \<open>/music/Album/A.mp3\<close> and
  \<open>/music/Album/b.mp3\<close>, where the relative paths are \<open>Album/A.mp3\<close> and \<open>Album/b.mp3\<close>.
\<close>

theorem plain_files_absolute_paths:
  "map_option (\<lambda>r. (log r, raised r, playlist (self r)))
     (parse 0 PlaylistCollector album_world_files
        (snd (init PlaylistCollector album_world_files ''/music'')) ''Album'' False)
     = Some ([], None, [''/music/Album/A.mp3'', ''/music/Album/b.mp3''])
   \<and> claimed_plain_playlist ''Album'' [''b.mp3'', ''A.mp3''] = [''Album/A.mp3'', ''Album/b.mp3'']"
  by code_simp

section \<open>Enclosures that share a line\<close>

text \<open>
  C3. The fetcher appends the groups of the matches that \<^verbatim>\<open>findall\<close> reports, in their
  order. The pattern starts with a greedy \<open>.*\<close>, so a match runs to the last
  \<open>enclosure\<close> of its line: a body with two enclosures on one line yields the second URL
  only, a body with the two enclosures on two lines yields both.
\<close>

theorem one_line_feed_last_enclosure_only:
  "decode_podcast_core enclosure_world ''http://feed/one-line'' [] = ([], Inr [''b.mp3''])
   \<and> decode_podcast_core enclosure_world ''http://feed/two-lines'' []
       = ([], Inr [''a.mp3'', ''b.mp3''])"
  by code_simp

section \<open>A start folder that cannot be listed\<close>

lemma parse_missing_nonrecursive:
  assumes "scandir w (abspath (getcwd w) (path_join (music_library_base_path slf) rel)) = Inl e"
    and "e = FileNotFoundError \<or> e = NotADirectoryError"
  shows "parse fuel cls w slf rel False
     = Some \<lparr>log = [ParseFailed e], raised = None,
             self = slf\<lparr>playlist := [], recursive := False,
                        folder := abspath (getcwd w) (path_join (music_library_base_path slf) rel)\<rparr>\<rparr>"
  using assms by (auto simp add: parse_def parse_nonrecusive_def Let_def)

lemma parse_missing_recursive:
  assumes "scandir w (abspath (getcwd w) (path_join (music_library_base_path slf) rel)) = Inl e"
  shows "parse (Suc n) cls w slf rel True
     = Some \<lparr>log = [], raised = None,
             self = slf\<lparr>playlist := [], recursive := True,
                        folder := abspath (getcwd w) (path_join (music_library_base_path slf) rel)\<rparr>\<rparr>"
  using assms by (simp add: parse_def parse_recursive_def Let_def)


text \<open>
  C7. When the start folder does not exist or is not a directory, no exception reaches the
  caller and the playlist is empty in both modes. The failure is logged in non-recursive
  mode only: in recursive mode \<^verbatim>\<open>os.walk\<close> passes over the failed listing, so no
  exception reaches the handlers of \<^verbatim>\<open>parse\<close> and nothing is logged.
\<close>

theorem recursive_missing_folder_not_logged:
  "map_option (\<lambda>r. (log r, raised r, playlist (self r)))
     (parse 1 PlaylistCollector missing_world
        (snd (init PlaylistCollector missing_world ''/music'')) ''Album'' True)
     = Some ([], None, [])
   \<and> map_option (\<lambda>r. (log r, raised r, playlist (self r)))
     (parse 1 PlaylistCollector missing_world
        (snd (init PlaylistCollector missing_world ''/music'')) ''song.mp3'' True)
     = Some ([], None, [])
   \<and> map_option (\<lambda>r. (log r, raised r, playlist (self r)))
     (parse 1 PlaylistCollector missing_world
        (snd (init PlaylistCollector missing_world ''/music'')) ''Album'' False)
     = Some ([ParseFailed FileNotFoundError], None, [])"
  by code_simp

section \<open>The loop over a folder\<close>


lemma bind_res_assoc: "bind_res (bind_res m f) g = bind_res m (\<lambda>x. bind_res (f x) g)"
  by (cases m) (auto simp: bind_res_def logged_def split: sum.split)












section \<open>Folder playlists\<close>





section \<open>Read failures of list files\<close>










section \<open>Recursive mode\<close>














section \<open>Matching the exclusion pattern\<close>

lemma lower_char_dot [simp]: "lower_char c = CHR ''.'' \<longleftrightarrow> c = CHR ''.''"
  by (auto simp: lower_char_def split: option.splits if_splits)

lemma bmatch_Star_Dot_Nil [simp]: "bmatch ic (Star Dot) ([], c) = [([], c)]"
  by simp





lemma lower_char_dot_self [simp]: "lower_char CHR ''.'' = CHR ''.''"
  by (simp add: lower_char_def)


















section \<open>Compiling the exclusion pattern\<close>















end
